theory Spec2Isabelle
  imports Complex_Main
begin

section \<open>Tensors, errors and random generators\<close>

text \<open>
  The notebook \<^verbatim>\<open>imageprocessinggans.ipynb\<close> trains a small GAN on MNIST. Its own code is
  the two model builders, \<^verbatim>\<open>train_step\<close>, \<^verbatim>\<open>train_gan\<close> and
  \<^verbatim>\<open>generate_and_display_images\<close>; everything numeric is a call into TensorFlow, Keras,
  NumPy or Matplotlib. Tensors are nested lists of reals: floating point is idealised as
  real arithmetic, so rounding, overflow and NaN are outside this model (where TensorFlow
  would produce NaN, e.g. the mean of an empty batch, HOL's division by zero gives 0; no
  theorem below depends on such a value). The one exception is the range of the
  discriminator's output, for which the discriminator is also evaluated in the range of
  float32, with its infinities and NaN.

  A batch of vectors is a \<open>mat\<close> (one row per sample), an image is height x width x
  channels, a batch of images is an \<open>image list\<close>.
\<close>

type_synonym vec = "real list"
type_synonym mat = "real list list"
type_synonym image = "real list list list"

text \<open>
  Exceptions are values. \<open>ValueError\<close>: NumPy or TensorFlow refuses an argument (a
  negative dimension, an empty range for \<^verbatim>\<open>randint\<close>). \<open>IndexError\<close>: an array is indexed
  out of bounds. \<open>ShapeError\<close>: Keras or TensorFlow refuses tensors of incompatible shapes.
  \<open>PredictError\<close>: \<^verbatim>\<open>Model.predict\<close> finds no batch in an input without samples and
  raises.
\<close>

datatype error = ValueError | IndexError | ShapeError | PredictError

text \<open>
  A seeded pseudo-random generator is the stream of variates its seed determines, read at
  a position that every draw advances. The same record serves TensorFlow's global
  generator (\<^verbatim>\<open>tf.random.normal\<close>) and NumPy's (\<^verbatim>\<open>np.random.randn\<close>,
  \<^verbatim>\<open>np.random.randint\<close>); the notebook uses both, and they are separate states.
\<close>

record rng =
  normals :: "nat \<Rightarrow> real"
  ints :: "nat \<Rightarrow> nat"
  pos :: nat

definition draw_normal :: "rng \<Rightarrow> nat \<Rightarrow> nat \<Rightarrow> mat \<times> rng" where
  "draw_normal g n m =
     (map (\<lambda>i. map (\<lambda>j. normals g (pos g + i * m + j)) [0..<m]) [0..<n],
      g\<lparr>pos := pos g + n * m\<rparr>)"

text \<open>\<^verbatim>\<open>tf.random.normal([batch_size, 100])\<close> and \<^verbatim>\<open>np.random.randn(num_images, 100)\<close>:
  a negative dimension raises.\<close>

definition random_normal :: "rng \<Rightarrow> int \<Rightarrow> nat \<Rightarrow> error + (mat \<times> rng)" where
  "random_normal g n m = (if n < 0 then Inl ValueError else Inr (draw_normal g (nat n) m))"


section \<open>Keras layers\<close>

text \<open>
  The layers the builders stack, by their documented forward semantics. A weight tensor has
  the static shape its layer was built with and is read through an index function; the
  layer's width (\<open>units\<close>) is part of the architecture, not of the weights.
\<close>

record dense_layer =
  kernel :: "nat \<Rightarrow> nat \<Rightarrow> real"
  bias :: "nat \<Rightarrow> real"

definition Dense :: "nat \<Rightarrow> dense_layer \<Rightarrow> vec \<Rightarrow> vec" where
  "Dense units p x =
     map (\<lambda>j. sum_list (map (\<lambda>i. x ! i * kernel p i j) [0..<length x]) + bias p j) [0..<units]"

definition LeakyReLU :: "real \<Rightarrow> real \<Rightarrow> real" where
  "LeakyReLU alpha x = (if 0 \<le> x then x else alpha * x)"

definition sigmoid :: "real \<Rightarrow> real" where
  "sigmoid x = 1 / (1 + exp (- x))"

definition Flatten :: "image \<Rightarrow> vec" where
  "Flatten x = concat (concat x)"

text \<open>\<^verbatim>\<open>Reshape((28, 28, 1))\<close> of a vector of 784 entries, row-major.\<close>

definition Reshape :: "vec \<Rightarrow> image" where
  "Reshape v = map (\<lambda>r. map (\<lambda>c. [v ! (r * 28 + c)]) [0..<28]) [0..<28]"

text \<open>
  \<^verbatim>\<open>BatchNormalization(momentum=0.8)\<close> over \<open>units\<close> features, with Keras's default
  \<open>epsilon = 0.001\<close>. In training mode a batch is normalised by its own mean and variance
  and the moving statistics move towards them; in inference mode the moving statistics
  normalise.
\<close>

record bn_stats =
  moving_mean :: "nat \<Rightarrow> real"
  moving_variance :: "nat \<Rightarrow> real"

definition batch_mean :: "mat \<Rightarrow> nat \<Rightarrow> real" where
  "batch_mean h j = sum_list (map (\<lambda>row. row ! j) h) / real (length h)"

definition batch_variance :: "mat \<Rightarrow> nat \<Rightarrow> real" where
  "batch_variance h j =
     sum_list (map (\<lambda>row. (row ! j - batch_mean h j)\<^sup>2) h) / real (length h)"

definition normalise ::
  "nat \<Rightarrow> (nat \<Rightarrow> real) \<Rightarrow> (nat \<Rightarrow> real) \<Rightarrow> (nat \<Rightarrow> real) \<Rightarrow> (nat \<Rightarrow> real) \<Rightarrow> mat \<Rightarrow> mat" where
  "normalise units gamma beta mu var h =
     map (\<lambda>row. map (\<lambda>j. gamma j * (row ! j - mu j) / sqrt (var j + 0.001) + beta j) [0..<units]) h"

definition BatchNormalization ::
  "bool \<Rightarrow> nat \<Rightarrow> (nat \<Rightarrow> real) \<Rightarrow> (nat \<Rightarrow> real) \<Rightarrow> bn_stats \<Rightarrow> mat \<Rightarrow> mat" where
  "BatchNormalization training units gamma beta st h =
     (if training then normalise units gamma beta (batch_mean h) (batch_variance h) h
      else normalise units gamma beta (moving_mean st) (moving_variance st) h)"

definition update_stats :: "real \<Rightarrow> bn_stats \<Rightarrow> mat \<Rightarrow> bn_stats" where
  "update_stats momentum st h =
     \<lparr>moving_mean = (\<lambda>j. momentum * moving_mean st j + (1 - momentum) * batch_mean h j),
      moving_variance = (\<lambda>j. momentum * moving_variance st j + (1 - momentum) * batch_variance h j)\<rparr>"

section \<open>The two networks\<close>

text \<open>
  \<^verbatim>\<open>build_generator\<close>: Dense(128, input_dim=100), LeakyReLU(0.2),
  BatchNormalization(momentum=0.8), Dense(784, tanh), Reshape((28, 28, 1)). Its trainable
  variables are \<open>gen_params\<close>; the moving statistics of the normalisation layer are state
  of the model that no optimizer touches.
\<close>

record gen_params =
  g_dense1 :: dense_layer
  g_gamma :: "nat \<Rightarrow> real"
  g_beta :: "nat \<Rightarrow> real"
  g_dense2 :: dense_layer

definition generator_hidden :: "gen_params \<Rightarrow> mat \<Rightarrow> mat" where
  "generator_hidden gw noise = map (\<lambda>z. map (LeakyReLU 0.2) (Dense 128 (g_dense1 gw) z)) noise"

definition build_generator :: "bool \<Rightarrow> gen_params \<Rightarrow> bn_stats \<Rightarrow> mat \<Rightarrow> image list" where
  "build_generator training gw st noise =
     map (\<lambda>h. Reshape (map tanh (Dense 784 (g_dense2 gw) h)))
       (BatchNormalization training 128 (g_gamma gw) (g_beta gw) st (generator_hidden gw noise))"

text \<open>The moving statistics after one call \<^verbatim>\<open>generator(noise, training=True)\<close>.\<close>

definition generator_stats :: "gen_params \<Rightarrow> bn_stats \<Rightarrow> mat \<Rightarrow> bn_stats" where
  "generator_stats gw st noise = update_stats 0.8 st (generator_hidden gw noise)"

text \<open>
  \<^verbatim>\<open>build_discriminator\<close>: Flatten(input_shape=(28, 28, 1)), Dense(128), LeakyReLU(0.2),
  Dense(1, sigmoid). It has no layer whose behaviour depends on the training flag.
\<close>

record disc_params =
  d_dense1 :: dense_layer
  d_dense2 :: dense_layer

definition build_discriminator :: "disc_params \<Rightarrow> image list \<Rightarrow> mat" where
  "build_discriminator dw xs =
     map (\<lambda>x. map sigmoid (Dense 1 (d_dense2 dw)
            (map (LeakyReLU 0.2) (Dense 128 (d_dense1 dw) (Flatten x))))) xs"

text \<open>The input shape Keras checks when the discriminator is called: every sample is
  28 x 28 x 1.\<close>

definition image_ok :: "image \<Rightarrow> bool" where
  "image_ok x = (length x = 28 \<and> list_all (\<lambda>row. length row = 28 \<and> list_all (\<lambda>px. length px = 1) row) x)"

text \<open>
  The same stack in the range of float32, for the one claim that is about the range of
  the discriminator's output. A float32 value is a real number, an infinity or NaN. An
  arithmetic result beyond the largest finite float32 overflows to an infinity,
  \<open>inf - inf\<close> and \<open>0 * inf\<close> are NaN, and NaN propagates. Rounding inside the
  finite range is not modelled; sums are accumulated in index order. Weights and pixels
  are finite (real) values.
\<close>

datatype f32 = Fin real | PInf | NInf | NaN

definition FLT_MAX :: real where
  "FLT_MAX = 340282346638528859811704183484516925440"

definition overflow :: "real \<Rightarrow> f32" where
  "overflow r = (if FLT_MAX < r then PInf else if r < - FLT_MAX then NInf else Fin r)"

fun fadd :: "f32 \<Rightarrow> f32 \<Rightarrow> f32" where
  "fadd NaN y = NaN"
| "fadd x NaN = NaN"
| "fadd (Fin a) (Fin b) = overflow (a + b)"
| "fadd PInf NInf = NaN"
| "fadd NInf PInf = NaN"
| "fadd PInf y = PInf"
| "fadd x PInf = PInf"
| "fadd NInf y = NInf"
| "fadd x NInf = NInf"

fun fmul :: "f32 \<Rightarrow> f32 \<Rightarrow> f32" where
  "fmul NaN y = NaN"
| "fmul x NaN = NaN"
| "fmul (Fin a) (Fin b) = overflow (a * b)"
| "fmul PInf (Fin b) = (if b = 0 then NaN else if 0 < b then PInf else NInf)"
| "fmul NInf (Fin b) = (if b = 0 then NaN else if 0 < b then NInf else PInf)"
| "fmul (Fin a) PInf = (if a = 0 then NaN else if 0 < a then PInf else NInf)"
| "fmul (Fin a) NInf = (if a = 0 then NaN else if 0 < a then NInf else PInf)"
| "fmul PInf PInf = PInf"
| "fmul NInf NInf = PInf"
| "fmul PInf NInf = NInf"
| "fmul NInf PInf = NInf"

fun fLeakyReLU :: "real \<Rightarrow> f32 \<Rightarrow> f32" where
  "fLeakyReLU alpha (Fin x) = Fin (LeakyReLU alpha x)"
| "fLeakyReLU alpha PInf = PInf"
| "fLeakyReLU alpha NInf = fmul (Fin alpha) NInf"
| "fLeakyReLU alpha NaN = NaN"

fun fsigmoid :: "f32 \<Rightarrow> f32" where
  "fsigmoid (Fin x) = Fin (sigmoid x)"
| "fsigmoid PInf = Fin 1"
| "fsigmoid NInf = Fin 0"
| "fsigmoid NaN = NaN"

definition fDense :: "nat \<Rightarrow> dense_layer \<Rightarrow> f32 list \<Rightarrow> f32 list" where
  "fDense units p x =
     map (\<lambda>j. fadd (foldl fadd (Fin 0) (map (\<lambda>i. fmul (x ! i) (Fin (kernel p i j))) [0..<length x]))
                  (Fin (bias p j))) [0..<units]"

definition build_discriminator_f32 :: "disc_params \<Rightarrow> image list \<Rightarrow> f32 list list" where
  "build_discriminator_f32 dw xs =
     map (\<lambda>x. map fsigmoid (fDense 1 (d_dense2 dw)
            (map (fLeakyReLU 0.2) (fDense 128 (d_dense1 dw) (map Fin (Flatten x)))))) xs"


section \<open>Losses, gradients and optimizers\<close>

text \<open>
  What TensorFlow supplies and the notebook only calls: the elementwise binary
  cross-entropy \<open>xent target prediction\<close>, the gradient a tape computes for a recorded
  loss with respect to one network's trainable variables, and one Adam update
  (\<^verbatim>\<open>apply_gradients\<close>, from optimizer state, gradients and variables to the new
  optimizer state and variables). They are parameters of the model: nothing about their
  values is assumed.
\<close>

record ('a, 'b) backend =
  xent :: "real \<Rightarrow> real \<Rightarrow> real"
  grad_disc :: "(disc_params \<Rightarrow> vec) \<Rightarrow> disc_params \<Rightarrow> disc_params"
  grad_gen :: "(gen_params \<Rightarrow> vec) \<Rightarrow> gen_params \<Rightarrow> gen_params"
  adam_gen :: "'a \<Rightarrow> gen_params \<Rightarrow> gen_params \<Rightarrow> 'a \<times> gen_params"
  adam_disc :: "'b \<Rightarrow> disc_params \<Rightarrow> disc_params \<Rightarrow> 'b \<times> disc_params"

definition mean :: "vec \<Rightarrow> real" where
  "mean xs = sum_list xs / real (length xs)"

text \<open>\<^verbatim>\<open>tf.keras.losses.binary_crossentropy(y_true, y_pred)\<close> averages the elementwise
  cross-entropy over the last axis only: for scores of shape (B, 1) it returns B values.\<close>

definition binary_crossentropy :: "('a, 'b) backend \<Rightarrow> mat \<Rightarrow> mat \<Rightarrow> vec" where
  "binary_crossentropy lib y_true y_pred =
     map (\<lambda>(t, p). mean (map (\<lambda>(a, b). xent lib a b) (zip t p))) (zip y_true y_pred)"

definition ones_like :: "mat \<Rightarrow> mat" where
  "ones_like t = map (map (\<lambda>_. 1)) t"

definition zeros_like :: "mat \<Rightarrow> mat" where
  "zeros_like t = map (map (\<lambda>_. 0)) t"

text \<open>Addition of two rank-1 tensors with TensorFlow's broadcasting: equal lengths, or
  one of them of length 1.\<close>

definition broadcastable :: "nat \<Rightarrow> nat \<Rightarrow> bool" where
  "broadcastable m n = (m = n \<or> m = 1 \<or> n = 1)"

definition tensor_add :: "vec \<Rightarrow> vec \<Rightarrow> vec" where
  "tensor_add a b =
     (if length a = length b then map (\<lambda>(x, y). x + y) (zip a b)
      else if length a = 1 then map (\<lambda>y. a ! 0 + y) b
      else map (\<lambda>x. x + b ! 0) a)"

section \<open>The training session\<close>

text \<open>
  The module-level globals as one record: both networks, both optimizers, both random
  generators, and what the notebook prints and plots. \<open>step_losses\<close> is a history
  variable, not a variable of the notebook: the pair \<^verbatim>\<open>train_step\<close> returned to the
  driver in each iteration, in order. The stacked model \<^verbatim>\<open>gan\<close> and the two
  \<^verbatim>\<open>compile\<close> calls take no part in training: \<^verbatim>\<open>train_step\<close> works on
  \<^verbatim>\<open>generator\<close> and \<^verbatim>\<open>discriminator\<close> with the two Adam optimizers created next to
  them.
\<close>

type_synonym panel = "real list list"
type_synonym figure = "((nat \<times> nat) \<times> panel) list"

record ('a, 'b) session =
  gen_vars :: gen_params
  gen_stats :: bn_stats
  disc_vars :: disc_params
  gen_opt :: 'a
  disc_opt :: 'b
  tf_rng :: rng
  np_rng :: rng
  console :: "(nat \<times> real \<times> real) list"
  figures :: "figure list"
  step_losses :: "(vec \<times> vec) list"

section \<open>train_step\<close>

text \<open>The computation recorded under \<^verbatim>\<open>disc_tape\<close>, as a function of the discriminator's
  variables; \<^verbatim>\<open>fake_images\<close> was computed before the tape opened and is a constant of it.\<close>

definition disc_tape ::
  "('a, 'b) backend \<Rightarrow> image list \<Rightarrow> image list \<Rightarrow> disc_params \<Rightarrow> vec" where
  "disc_tape lib real_images fake_images dw =
     (let real_output = build_discriminator dw real_images;
          fake_output = build_discriminator dw fake_images;
          disc_loss_real = binary_crossentropy lib (ones_like real_output) real_output;
          disc_loss_fake = binary_crossentropy lib (zeros_like fake_output) fake_output
      in tensor_add disc_loss_real disc_loss_fake)"

text \<open>The computation recorded under \<^verbatim>\<open>gen_tape\<close>, as a function of the generator's
  variables: the generator runs again on \<^verbatim>\<open>noise\<close>, the variable bound in the first line of
  \<^verbatim>\<open>train_step\<close>.\<close>

definition gen_tape ::
  "('a, 'b) backend \<Rightarrow> disc_params \<Rightarrow> bn_stats \<Rightarrow> mat \<Rightarrow> gen_params \<Rightarrow> vec" where
  "gen_tape lib dw st noise gw =
     (let fake_images = build_generator True gw st noise;
          fake_output = build_discriminator dw fake_images
      in binary_crossentropy lib (ones_like fake_output) fake_output)"

text \<open>Lines 1-2 of \<^verbatim>\<open>train_step\<close> (step 1 of the specification): draw the latent batch and
  run the generator in training mode.\<close>

definition generate_fake ::
  "int \<Rightarrow> ('a, 'b) session \<Rightarrow> error + (('a, 'b) session \<times> mat \<times> image list)" where
  "generate_fake batch_size s =
     (case random_normal (tf_rng s) batch_size 100 of
        Inl e \<Rightarrow> Inl e
      | Inr (noise, r) \<Rightarrow>
          Inr (s\<lparr>tf_rng := r, gen_stats := generator_stats (gen_vars s) (gen_stats s) noise\<rparr>,
               noise,
               build_generator True (gen_vars s) (gen_stats s) noise))"

text \<open>The block \<^verbatim>\<open># Train Discriminator\<close> (steps 2-4). Keras refuses real images of
  another shape than 28 x 28 x 1, and TensorFlow refuses the sum of the two loss vectors
  when their lengths cannot be broadcast.\<close>

definition train_discriminator ::
  "('a, 'b) backend \<Rightarrow> image list \<Rightarrow> image list \<Rightarrow> ('a, 'b) session
     \<Rightarrow> error + (('a, 'b) session \<times> vec)" where
  "train_discriminator lib real_images fake_images s =
     (if \<not> list_all image_ok real_images then Inl ShapeError
      else if \<not> broadcastable (length real_images) (length fake_images) then Inl ShapeError
      else
        let disc_loss = disc_tape lib real_images fake_images (disc_vars s);
            gradients_of_discriminator =
              grad_disc lib (disc_tape lib real_images fake_images) (disc_vars s);
            (opt, dw) = adam_disc lib (disc_opt s) gradients_of_discriminator (disc_vars s)
        in Inr (s\<lparr>disc_vars := dw, disc_opt := opt\<rparr>, disc_loss))"

text \<open>Steps 1-4 together: the discriminator-update sub-step.\<close>

definition discriminator_substep ::
  "('a, 'b) backend \<Rightarrow> image list \<Rightarrow> int \<Rightarrow> ('a, 'b) session
     \<Rightarrow> error + (('a, 'b) session \<times> mat \<times> vec)" where
  "discriminator_substep lib real_images batch_size s =
     (case generate_fake batch_size s of
        Inl e \<Rightarrow> Inl e
      | Inr (s1, noise, fake_images) \<Rightarrow>
          (case train_discriminator lib real_images fake_images s1 of
             Inl e \<Rightarrow> Inl e
           | Inr (s2, disc_loss) \<Rightarrow> Inr (s2, noise, disc_loss)))"

text \<open>The block \<^verbatim>\<open># Train Generator\<close> (steps 5-7): the generator runs in training mode
  once more, the already updated discriminator scores its output, and Adam updates the
  generator's variables.\<close>

definition generator_substep ::
  "('a, 'b) backend \<Rightarrow> mat \<Rightarrow> ('a, 'b) session \<Rightarrow> ('a, 'b) session \<times> vec" where
  "generator_substep lib noise s =
     (let gen_loss = gen_tape lib (disc_vars s) (gen_stats s) noise (gen_vars s);
          gradients_of_generator =
            grad_gen lib (gen_tape lib (disc_vars s) (gen_stats s) noise) (gen_vars s);
          (opt, gw) = adam_gen lib (gen_opt s) gradients_of_generator (gen_vars s)
      in (s\<lparr>gen_stats := generator_stats (gen_vars s) (gen_stats s) noise,
             gen_vars := gw, gen_opt := opt\<rparr>, gen_loss))"

definition train_step ::
  "('a, 'b) backend \<Rightarrow> image list \<Rightarrow> int \<Rightarrow> ('a, 'b) session
     \<Rightarrow> error + (('a, 'b) session \<times> vec \<times> vec)" where
  "train_step lib real_images batch_size s =
     (case discriminator_substep lib real_images batch_size s of
        Inl e \<Rightarrow> Inl e
      | Inr (s2, noise, disc_loss) \<Rightarrow>
          (case generator_substep lib noise s2 of
             (s3, gen_loss) \<Rightarrow> Inr (s3, disc_loss, gen_loss)))"

text \<open>
  The training step as the specification words its step 5, for comparison with the code:
  a second latent batch is drawn before the generator's forward pass of the generator
  sub-step. It differs from \<open>train_step\<close> in nothing else.
\<close>

definition spec_train_step ::
  "('a, 'b) backend \<Rightarrow> image list \<Rightarrow> int \<Rightarrow> ('a, 'b) session
     \<Rightarrow> error + (('a, 'b) session \<times> vec \<times> vec)" where
  "spec_train_step lib real_images batch_size s =
     (case discriminator_substep lib real_images batch_size s of
        Inl e \<Rightarrow> Inl e
      | Inr (s2, noise, disc_loss) \<Rightarrow>
          (case random_normal (tf_rng s2) batch_size 100 of
             Inl e \<Rightarrow> Inl e
           | Inr (fresh, r) \<Rightarrow>
               (case generator_substep lib fresh (s2\<lparr>tf_rng := r\<rparr>) of
                  (s3, gen_loss) \<Rightarrow> Inr (s3, disc_loss, gen_loss))))"

section \<open>generate_and_display_images\<close>

text \<open>The axes of \<^verbatim>\<open>plt.subplots(4, 4)\<close> in the order the two nested loops visit them.\<close>

definition grid_axes :: "(nat \<times> nat) list" where
  "grid_axes = concat (map (\<lambda>i. map (\<lambda>j. (i, j)) [0..<4]) [0..<4])"

text \<open>\<^verbatim>\<open>generated_images[cnt, :, :, 0]\<close>: the sample's first channel as a 2-d image.\<close>

definition channel0 :: "image \<Rightarrow> panel" where
  "channel0 x = map (map (\<lambda>px. px ! 0)) x"

text \<open>The display loops, with the counter \<^verbatim>\<open>cnt\<close>. Indexing the batch at or beyond its
  length raises IndexError, and the figure is never shown.\<close>

fun display_loop :: "image list \<Rightarrow> (nat \<times> nat) list \<Rightarrow> nat \<Rightarrow> error + figure" where
  "display_loop generated_images [] cnt = Inr []"
| "display_loop generated_images (ax # axs) cnt =
     (if cnt < length generated_images then
        (case display_loop generated_images axs (cnt + 1) of
           Inl e \<Rightarrow> Inl e
         | Inr fig \<Rightarrow> Inr ((ax, channel0 (generated_images ! cnt)) # fig))
      else Inl IndexError)"

text \<open>\<^verbatim>\<open>generator.predict(noise)\<close>: the generator in inference mode. Keras's
  \<^verbatim>\<open>predict\<close> iterates over the batches of its input and raises when there is none, so an
  input without samples fails here.\<close>

definition predict :: "gen_params \<Rightarrow> bn_stats \<Rightarrow> mat \<Rightarrow> error + image list" where
  "predict gw st noise =
     (if noise = [] then Inl PredictError else Inr (build_generator False gw st noise))"

definition rescale :: "image list \<Rightarrow> image list" where
  "rescale xs = map (map (map (map (\<lambda>v. 0.5 * v + 0.5)))) xs"

definition generate_and_display_images ::
  "('a, 'b) session \<Rightarrow> int \<Rightarrow> error + ('a, 'b) session" where
  "generate_and_display_images s num_images =
     (case random_normal (np_rng s) num_images 100 of
        Inl e \<Rightarrow> Inl e
      | Inr (noise, r) \<Rightarrow>
          (case predict (gen_vars s) (gen_stats s) noise of
             Inl e \<Rightarrow> Inl e
           | Inr generated \<Rightarrow>
               (let generated_images = rescale generated
                in case display_loop generated_images grid_axes 0 of
                     Inl e \<Rightarrow> Inl e
                   | Inr fig \<Rightarrow> Inr (s\<lparr>np_rng := r, figures := figures s @ [fig]\<rparr>))))"

section \<open>train_gan\<close>

text \<open>The dataset \<^verbatim>\<open>mnist.load_data()\<close> returns is a parameter: images of unsigned
  bytes. The driver rescales them to [-1, 1] and adds the channel axis.\<close>

definition preprocess :: "nat list list list \<Rightarrow> image list" where
  "preprocess raw = map (map (map (\<lambda>v. [real v / 127.5 - 1.0]))) raw"




section \<open>Names for the step's intermediate values\<close>

text \<open>The local variables \<^verbatim>\<open>noise\<close> and \<^verbatim>\<open>fake_images\<close> of \<^verbatim>\<open>train_step\<close> as functions of
  the session on entry, and the condition under which a call raises nothing.\<close>

definition step_noise :: "('a, 'b) session \<Rightarrow> int \<Rightarrow> mat" where
  "step_noise s batch_size = fst (draw_normal (tf_rng s) (nat batch_size) 100)"

definition step_fake :: "('a, 'b) session \<Rightarrow> int \<Rightarrow> image list" where
  "step_fake s batch_size =
     build_generator True (gen_vars s) (gen_stats s) (step_noise s batch_size)"

definition step_ok :: "image list \<Rightarrow> int \<Rightarrow> bool" where
  "step_ok real_images batch_size =
     (0 \<le> batch_size \<and> list_all image_ok real_images \<and>
      broadcastable (length real_images) (nat batch_size))"

text \<open>Observations of a step's outcome: how far TensorFlow's generator has been read, and
  how many values each returned loss holds.\<close>

definition rng_position :: "error + (('a, 'b) session \<times> vec \<times> vec) \<Rightarrow> error + nat" where
  "rng_position r = map_sum id (\<lambda>(s, dl, gl). pos (tf_rng s)) r"

definition loss_lengths :: "error + (('a, 'b) session \<times> vec \<times> vec) \<Rightarrow> error + (nat \<times> nat)" where
  "loss_lengths r = map_sum id (\<lambda>(s, dl, gl). (length dl, length gl)) r"


definition batch_indices :: "('a, 'b) session \<Rightarrow> nat \<Rightarrow> int \<Rightarrow> nat list" where
  "batch_indices s n batch_size =
     map (\<lambda>k. ints (np_rng s) (pos (np_rng s) + k) mod n) [0..<nat batch_size]"


section \<open>Sample inputs\<close>

text \<open>A concrete session: all kernels and biases zero, the normalisation layer at Keras's
  initial values, optimizer states that count their updates, and generators whose streams
  are \<open>0, 1, 2, ...\<close>. The sample backend uses the textbook cross-entropy; its gradients
  and updates are arbitrary but not the identity.\<close>

definition zero_dense :: dense_layer where
  "zero_dense = \<lparr>kernel = (\<lambda>i j. 0), bias = (\<lambda>j. 0)\<rparr>"

definition sample_disc :: disc_params where
  "sample_disc = \<lparr>d_dense1 = zero_dense, d_dense2 = zero_dense\<rparr>"

definition sample_gen :: gen_params where
  "sample_gen = \<lparr>g_dense1 = zero_dense, g_gamma = (\<lambda>j. 1), g_beta = (\<lambda>j. 0), g_dense2 = zero_dense\<rparr>"

definition sample_stats :: bn_stats where
  "sample_stats = \<lparr>moving_mean = (\<lambda>j. 0), moving_variance = (\<lambda>j. 1)\<rparr>"

definition sample_rng :: rng where
  "sample_rng = \<lparr>normals = (\<lambda>k. real k), ints = (\<lambda>k. k), pos = 0\<rparr>"

definition sample_image :: image where
  "sample_image = replicate 28 (replicate 28 [0])"

definition sample_session :: "(nat, nat) session" where
  "sample_session =
     \<lparr>gen_vars = sample_gen, gen_stats = sample_stats, disc_vars = sample_disc,
      gen_opt = 0, disc_opt = 0, tf_rng = sample_rng, np_rng = sample_rng,
      console = [], figures = [], step_losses = []\<rparr>"

definition sample_backend :: "(nat, nat) backend" where
  "sample_backend =
     \<lparr>xent = (\<lambda>t p. - (t * ln p + (1 - t) * ln (1 - p))),
      grad_disc = (\<lambda>f w. w\<lparr>d_dense2 := \<lparr>kernel = (\<lambda>i j. 1), bias = (\<lambda>j. 1)\<rparr>\<rparr>),
      grad_gen = (\<lambda>f w. w\<lparr>g_dense2 := \<lparr>kernel = (\<lambda>i j. 1), bias = (\<lambda>j. 1)\<rparr>\<rparr>),
      adam_gen = (\<lambda>n g w. (Suc n, g)),
      adam_disc = (\<lambda>n g w. (Suc n, g))\<rparr>"


text \<open>A finite input on which float32 overflows: every pixel is \<open>10^36\<close>, the first layer's
  kernel is all ones, and the last layer's kernel has both signs.\<close>

definition overflow_image :: image where
  "overflow_image = replicate 28 (replicate 28 [10 ^ 36])"


section \<open>Supporting lemmas\<close>

subsection \<open>Shapes of what the networks return\<close>

lemma length_Dense [simp]: "length (Dense units p x) = units"
  by (simp add: Dense_def)

lemma length_Reshape [simp]: "length (Reshape v) = 28"
  by (simp add: Reshape_def)

lemma image_ok_Reshape [simp]: "image_ok (Reshape v)"
  by (simp add: image_ok_def Reshape_def list_all_iff)

lemma length_BatchNormalization [simp]:
  "length (BatchNormalization training units gamma beta st h) = length h"
  by (simp add: BatchNormalization_def normalise_def)

lemma length_generator_hidden [simp]: "length (generator_hidden gw noise) = length noise"
  by (simp add: generator_hidden_def)

lemma length_build_generator [simp]:
  "length (build_generator training gw st noise) = length noise"
  by (simp add: build_generator_def)

lemma build_generator_shape: "list_all image_ok (build_generator training gw st noise)"
  by (simp add: build_generator_def list_all_iff)

lemma build_generator_training_stats:
  "build_generator True gw st noise = build_generator True gw st' noise"
  by (simp add: build_generator_def BatchNormalization_def)

lemma length_build_discriminator [simp]: "length (build_discriminator dw xs) = length xs"
  by (simp add: build_discriminator_def)



lemma length_draw_normal [simp]: "length (fst (draw_normal g n m)) = n"
  by (simp add: draw_normal_def)

lemma draw_normal_rows: "list_all (\<lambda>z. length z = m) (fst (draw_normal g n m))"
  by (simp add: draw_normal_def list_all_iff)

subsection \<open>The display loop\<close>

lemma display_loop_eq:
  "display_loop g axs c =
     (if axs = [] \<or> c + length axs \<le> length g
      then Inr (map (\<lambda>k. (axs ! k, channel0 (g ! (c + k)))) [0..<length axs])
      else Inl IndexError)"
proof (induction axs arbitrary: c)
  case Nil
  then show ?case by simp
next
  case (Cons ax axs)
  show ?case
  proof (cases "c < length g")
    case False
    then show ?thesis by simp
  next
    case True
    have shift: "map (\<lambda>k. ((ax # axs) ! k, channel0 (g ! (c + k)))) [0..<length (ax # axs)]
        = (ax, channel0 (g ! c)) # map (\<lambda>k. (axs ! k, channel0 (g ! (Suc c + k)))) [0..<length axs]"
      by (simp add: upt_conv_Cons map_Suc_upt [symmetric] del: upt_Suc)
    show ?thesis
      using True Cons.IH [of "c + 1"] shift by (auto simp del: upt_Suc)
  qed
qed

lemma length_grid_axes [simp]: "length grid_axes = 16"
  by (simp add: grid_axes_def upt_rec)

lemma image_ok_sample [simp]: "image_ok sample_image"
  by (simp add: image_ok_def sample_image_def list_all_iff)

lemma grid_axes_product: "grid_axes = List.product [0..<4] [0..<4]"
  by (simp add: grid_axes_def product_concat_map)

lemma grid_axes_nth: "k < 16 \<Longrightarrow> grid_axes ! k = (k div 4, k mod 4)"
  by (simp add: grid_axes_product product_nth less_mult_imp_div_less)

lemma display_grid:
  "16 \<le> length g \<Longrightarrow>
   display_loop g grid_axes 0 = Inr (map (\<lambda>k. ((k div 4, k mod 4), channel0 (g ! k))) [0..<16])"
  by (simp add: display_loop_eq grid_axes_nth del: upt_Suc cong: map_cong)

lemma display_grid_short:
  "length g < 16 \<Longrightarrow> display_loop g grid_axes 0 = Inl IndexError"
proof -
  have "grid_axes \<noteq> []"
    using length_grid_axes by fastforce
  then show "length g < 16 \<Longrightarrow> display_loop g grid_axes 0 = Inl IndexError"
    by (simp add: display_loop_eq)
qed

lemma length_rescale [simp]: "length (rescale xs) = length xs"
  by (simp add: rescale_def)

subsection \<open>The training step, unfolded\<close>

lemma generate_fake_eq:
  "generate_fake B s =
     (if B < 0 then Inl ValueError
      else Inr (s\<lparr>tf_rng := snd (draw_normal (tf_rng s) (nat B) 100),
                  gen_stats := generator_stats (gen_vars s) (gen_stats s) (step_noise s B)\<rparr>,
                step_noise s B, step_fake s B))"
  by (simp add: generate_fake_def random_normal_def step_noise_def step_fake_def split_beta)

lemma length_step_fake [simp]: "length (step_fake s B) = nat B"
  by (simp add: step_fake_def step_noise_def)

lemma discriminator_substep_eq:
  "discriminator_substep lib xs B s =
     (if B < 0 then Inl ValueError
      else if \<not> list_all image_ok xs then Inl ShapeError
      else if \<not> broadcastable (length xs) (nat B) then Inl ShapeError
      else Inr (s\<lparr>tf_rng := snd (draw_normal (tf_rng s) (nat B) 100),
                  gen_stats := generator_stats (gen_vars s) (gen_stats s) (step_noise s B),
                  disc_vars := snd (adam_disc lib (disc_opt s)
                     (grad_disc lib (disc_tape lib xs (step_fake s B)) (disc_vars s)) (disc_vars s)),
                  disc_opt := fst (adam_disc lib (disc_opt s)
                     (grad_disc lib (disc_tape lib xs (step_fake s B)) (disc_vars s)) (disc_vars s))\<rparr>,
                step_noise s B,
                disc_tape lib xs (step_fake s B) (disc_vars s)))"
  by (simp add: discriminator_substep_def generate_fake_eq train_discriminator_def Let_def split_beta)

lemma generator_substep_eq:
  "generator_substep lib noise s =
     (s\<lparr>gen_stats := generator_stats (gen_vars s) (gen_stats s) noise,
        gen_vars := snd (adam_gen lib (gen_opt s)
           (grad_gen lib (gen_tape lib (disc_vars s) (gen_stats s) noise) (gen_vars s)) (gen_vars s)),
        gen_opt := fst (adam_gen lib (gen_opt s)
           (grad_gen lib (gen_tape lib (disc_vars s) (gen_stats s) noise) (gen_vars s)) (gen_vars s))\<rparr>,
      gen_tape lib (disc_vars s) (gen_stats s) noise (gen_vars s))"
  by (simp add: generator_substep_def Let_def split_beta)

lemma gen_tape_stats: "gen_tape lib dw st noise gw = gen_tape lib dw st' noise gw"
  by (simp add: gen_tape_def build_generator_training_stats [of gw st noise st'])

lemma train_step_succeeds:
  "step_ok xs B \<Longrightarrow> \<exists>r. train_step lib xs B s = Inr r"
  by (simp add: step_ok_def train_step_def discriminator_substep_eq split_beta)

lemma train_step_InrD:
  assumes "train_step lib xs B s = Inr (s', dl, gl)"
  shows "step_ok xs B"
    and "dl = disc_tape lib xs (step_fake s B) (disc_vars s)"
    and "gl = gen_tape lib (disc_vars s') (gen_stats s) (step_noise s B) (gen_vars s)"
    and "tf_rng s' = snd (draw_normal (tf_rng s) (nat B) 100)"
    and "np_rng s' = np_rng s" and "console s' = console s" and "figures s' = figures s"
    and "step_losses s' = step_losses s"
proof -
  from assms show ok: "step_ok xs B"
    by (auto simp: step_ok_def train_step_def discriminator_substep_eq split: if_splits)
  with assms show "dl = disc_tape lib xs (step_fake s B) (disc_vars s)"
    and "tf_rng s' = snd (draw_normal (tf_rng s) (nat B) 100)"
    and "np_rng s' = np_rng s" and "console s' = console s" and "figures s' = figures s"
    and "step_losses s' = step_losses s"
    by (auto simp: step_ok_def train_step_def discriminator_substep_eq generator_substep_eq)
  from ok assms show "gl = gen_tape lib (disc_vars s') (gen_stats s) (step_noise s B) (gen_vars s)"
    by (auto simp: step_ok_def train_step_def discriminator_substep_eq generator_substep_eq
        intro: gen_tape_stats)
qed

subsection \<open>Shapes and entries of the losses\<close>

lemma length_binary_crossentropy_ones [simp]:
  "length (binary_crossentropy lib (ones_like p) p) = length p"
  by (simp add: binary_crossentropy_def ones_like_def)

lemma length_binary_crossentropy_zeros [simp]:
  "length (binary_crossentropy lib (zeros_like p) p) = length p"
  by (simp add: binary_crossentropy_def zeros_like_def)

lemma length_tensor_add:
  "length (tensor_add a b) = (if length a = 1 then length b else length a)"
  by (simp add: tensor_add_def)

lemma length_disc_tape:
  "length (disc_tape lib xs fake dw) = (if length xs = 1 then length fake else length xs)"
  by (simp add: disc_tape_def Let_def length_tensor_add)

lemma length_gen_tape [simp]: "length (gen_tape lib dw st noise gw) = length noise"
  by (simp add: gen_tape_def Let_def)

lemma length_step_noise [simp]: "length (step_noise s B) = nat B"
  by (simp add: step_noise_def)

lemma build_discriminator_nth:
  "i < length xs \<Longrightarrow> \<exists>y. build_discriminator dw xs ! i = [y]"
  by (simp add: build_discriminator_def Dense_def)

lemma mean_single [simp]: "mean [x] = x"
  by (simp add: mean_def)

lemma binary_crossentropy_ones_nth:
  assumes "i < length xs"
  shows "binary_crossentropy lib (ones_like (build_discriminator dw xs)) (build_discriminator dw xs) ! i
    = xent lib 1 (build_discriminator dw xs ! i ! 0)"
proof -
  obtain y where y: "build_discriminator dw xs ! i = [y]"
    using build_discriminator_nth [OF assms] by blast
  with assms show ?thesis
    by (simp add: binary_crossentropy_def ones_like_def)
qed

lemma binary_crossentropy_zeros_nth:
  assumes "i < length xs"
  shows "binary_crossentropy lib (zeros_like (build_discriminator dw xs)) (build_discriminator dw xs) ! i
    = xent lib 0 (build_discriminator dw xs ! i ! 0)"
proof -
  obtain y where y: "build_discriminator dw xs ! i = [y]"
    using build_discriminator_nth [OF assms] by blast
  with assms show ?thesis
    by (simp add: binary_crossentropy_def zeros_like_def)
qed

lemma tensor_add_nth:
  "length a = length b \<Longrightarrow> i < length a \<Longrightarrow> tensor_add a b ! i = a ! i + b ! i"
  by (simp add: tensor_add_def)

lemma step_ok_sample [simp]: "step_ok [sample_image] 1"
  by (simp add: step_ok_def broadcastable_def)

lemma step_ok_sample2 [simp]: "step_ok [sample_image, sample_image] 2"
  by (simp add: step_ok_def broadcastable_def)

lemma train_step_rng_position:
  "step_ok xs B \<Longrightarrow>
   rng_position (train_step lib xs B s) = Inr (pos (tf_rng s) + nat B * 100)"
  by (simp add: rng_position_def step_ok_def train_step_def discriminator_substep_eq
      generator_substep_eq draw_normal_def)

lemma spec_train_step_rng_position:
  "step_ok xs B \<Longrightarrow>
   rng_position (spec_train_step lib xs B s) = Inr (pos (tf_rng s) + nat B * 100 + nat B * 100)"
  by (simp add: rng_position_def step_ok_def spec_train_step_def discriminator_substep_eq
      generator_substep_eq draw_normal_def random_normal_def split_beta)

lemma train_step_loss_lengths:
  "step_ok xs B \<Longrightarrow>
   loss_lengths (train_step lib xs B s)
     = Inr (if length xs = 1 then nat B else length xs, nat B)"
  by (simp add: loss_lengths_def step_ok_def train_step_def discriminator_substep_eq
      generator_substep_eq length_disc_tape)

subsection \<open>The driver's loop\<close>

lemma length_preprocess [simp]: "length (preprocess raw) = length raw"
  by (simp add: preprocess_def)



lemma length_batch_indices [simp]: "length (batch_indices s n B) = nat B"
  by (simp add: batch_indices_def)




lemma predict_eq:
  "noise \<noteq> [] \<Longrightarrow> predict gw st noise = Inr (build_generator False gw st noise)"
  by (simp add: predict_def)

lemma draw_normal_nonempty: "0 < n \<Longrightarrow> fst (draw_normal g n m) \<noteq> []"
  by (simp add: draw_normal_def)

lemma predict_16:
  "predict gw st (fst (draw_normal g 16 100))
     = Inr (build_generator False gw st (fst (draw_normal g 16 100)))"
  by (rule predict_eq) (simp add: draw_normal_nonempty)




subsection \<open>The sample discriminator\<close>

lemma Dense_zero: "Dense units zero_dense x = replicate units 0"
  by (simp add: Dense_def zero_dense_def map_replicate_const sum_list_replicate)

lemma build_discriminator_sample:
  "build_discriminator sample_disc xs = replicate (length xs) [1 / 2]"
  by (simp add: build_discriminator_def sample_disc_def Dense_zero LeakyReLU_def sigmoid_def
      map_replicate_const)

subsection \<open>The discriminator in float32's range\<close>

lemma length_fDense [simp]: "length (fDense units p x) = units"
  by (simp add: fDense_def)


lemma length_build_discriminator_f32 [simp]:
  "length (build_discriminator_f32 dw xs) = length xs"
  by (simp add: build_discriminator_f32_def)













lemma image_ok_overflow [simp]: "image_ok overflow_image"
  by (simp add: image_ok_def overflow_image_def list_all_iff)

lemma gen_tape_fun:
  "gen_tape lib dw st noise =
     (\<lambda>gw. binary_crossentropy lib
             (ones_like (build_discriminator dw (build_generator True gw st0 noise)))
             (build_discriminator dw (build_generator True gw st0 noise)))"
  by (rule ext) (simp add: gen_tape_def Let_def build_generator_training_stats [of _ st noise st0])

lemma disc_tape_fun:
  "disc_tape lib xs fake =
     (\<lambda>dw. tensor_add
             (binary_crossentropy lib (ones_like (build_discriminator dw xs))
                (build_discriminator dw xs))
             (binary_crossentropy lib (zeros_like (build_discriminator dw fake))
                (build_discriminator dw fake)))"
  by (rule ext) (simp add: disc_tape_def Let_def)

lemma train_step_updates:
  assumes "train_step lib xs B s = Inr (s', dl, gl)"
  shows "disc_vars s' = snd (adam_disc lib (disc_opt s)
           (grad_disc lib (disc_tape lib xs (step_fake s B)) (disc_vars s)) (disc_vars s))"
    and "gen_vars s' = snd (adam_gen lib (gen_opt s)
           (grad_gen lib (gen_tape lib (disc_vars s')
              (generator_stats (gen_vars s) (gen_stats s) (step_noise s B)) (step_noise s B))
              (gen_vars s)) (gen_vars s))"
  using assms train_step_InrD(1) [OF assms]
  by (auto simp: step_ok_def train_step_def discriminator_substep_eq generator_substep_eq)

lemma train_step_disc_loss_backend:
  assumes "train_step lib xs B s = Inr (s', dl, gl)" and "xent lib' = xent lib"
  shows "\<exists>t' gl'. train_step lib' xs B s = Inr (t', dl, gl')"
proof -
  have ok: "step_ok xs B"
    using assms(1) by (rule train_step_InrD(1))
  then obtain r where "train_step lib' xs B s = Inr r"
    using train_step_succeeds by blast
  then obtain t' dl' gl' where r: "train_step lib' xs B s = Inr (t', dl', gl')"
    by (cases r) auto
  have "dl' = disc_tape lib' xs (step_fake s B) (disc_vars s)"
    using r by (rule train_step_InrD(2))
  also have "\<dots> = disc_tape lib xs (step_fake s B) (disc_vars s)"
    using assms(2) by (simp add: disc_tape_def binary_crossentropy_def)
  also have "\<dots> = dl"
    using train_step_InrD(2) [OF assms(1)] by simp
  finally show ?thesis
    using r by blast
qed

section \<open>The claims\<close>

subsection \<open>The training step\<close>

text \<open>
  C1 (as amended). The specification says that the generator sub-step draws a fresh latent
  batch. The code does not: \<^verbatim>\<open>train_step\<close> calls \<^verbatim>\<open>tf.random.normal\<close> once, and the
  generator sub-step runs the generator again on the same variable \<^verbatim>\<open>noise\<close>. What
  holds: whenever the step returns, the generator loss is the cross-entropy (against
  all-ones) of the updated discriminator's scores on the batch the generator, with the
  variables it had on entry, produces from the latent batch drawn in step 1; and
  TensorFlow's generator has advanced by exactly one batch, \<open>batch_size * 100\<close> variates.
\<close>

theorem latent_batch_reused:
  assumes "train_step lib xs B s = Inr (s', dl, gl)"
  shows "let noise = fst (draw_normal (tf_rng s) (nat B) 100);
             fake_images = build_generator True (gen_vars s) (gen_stats s) noise;
             fake_output = build_discriminator (disc_vars s') fake_images
         in gl = binary_crossentropy lib (ones_like fake_output) fake_output \<and>
            tf_rng s' = snd (draw_normal (tf_rng s) (nat B) 100) \<and>
            pos (tf_rng s') = pos (tf_rng s) + nat B * 100"
  using train_step_InrD(3,4) [OF assms]
  by (simp add: Let_def gen_tape_def step_noise_def draw_normal_def)

theorem latent_batch_reused_witness:
  "train_step sample_backend [sample_image] 1 sample_session
     = Inr (projr (train_step sample_backend [sample_image] 1 sample_session)) \<and>
   pos (tf_rng (fst (projr (train_step sample_backend [sample_image] 1 sample_session))))
     = pos (tf_rng sample_session) + nat 1 * 100"
proof -
  obtain r where r: "train_step sample_backend [sample_image] 1 sample_session = Inr r"
    using train_step_succeeds [OF step_ok_sample] by blast
  obtain s' dl gl where p: "r = (s', dl, gl)"
    by (cases r) auto
  have "pos (tf_rng s') = pos (tf_rng sample_session) + nat 1 * 100"
    using latent_batch_reused [OF r [unfolded p]] unfolding Let_def by blast
  with r p show ?thesis by simp
qed

text \<open>The claim as stated fails on one sample image with batch size 1: the step as the
  specification words it reads 200 variates, the code reads 100, and the two steps differ.\<close>

theorem fresh_latent_counterexample:
  "train_step sample_backend [sample_image] 1 sample_session
     \<noteq> spec_train_step sample_backend [sample_image] 1 sample_session \<and>
   rng_position (train_step sample_backend [sample_image] 1 sample_session) = Inr 100 \<and>
   rng_position (spec_train_step sample_backend [sample_image] 1 sample_session) = Inr 200"
proof -
  have a: "rng_position (train_step sample_backend [sample_image] 1 sample_session) = Inr 100"
    using train_step_rng_position [OF step_ok_sample, of sample_backend sample_session]
    by (simp add: sample_session_def sample_rng_def)
  have b: "rng_position (spec_train_step sample_backend [sample_image] 1 sample_session) = Inr 200"
    using spec_train_step_rng_position [OF step_ok_sample, of sample_backend sample_session]
    by (simp add: sample_session_def sample_rng_def)
  from a b have "train_step sample_backend [sample_image] 1 sample_session
     \<noteq> spec_train_step sample_backend [sample_image] 1 sample_session"
    by auto
  with a b show ?thesis by blast
qed

text \<open>
  C2. In every training step the discriminator sub-step (steps 1-4) leaves the generator's
  trainable variables and the generator's optimizer untouched, and the generator sub-step
  (steps 5-7) leaves the discriminator's variables and optimizer untouched; a step is the
  first followed by the second. (The moving statistics of the generator's normalisation
  layer are not trainable variables: the forward passes in training mode update them, no
  optimizer does.)
\<close>

theorem updates_are_separate:
  "(discriminator_substep lib xs B s = Inr r \<longrightarrow>
      gen_vars (fst r) = gen_vars s \<and> gen_opt (fst r) = gen_opt s) \<and>
   disc_vars (fst (generator_substep lib noise s)) = disc_vars s \<and>
   disc_opt (fst (generator_substep lib noise s)) = disc_opt s \<and>
   (train_step lib xs B s = Inr (s', dl, gl) \<longrightarrow>
      (\<exists>s2. discriminator_substep lib xs B s = Inr (s2, step_noise s B, dl) \<and>
            generator_substep lib (step_noise s B) s2 = (s', gl) \<and>
            gen_vars s2 = gen_vars s \<and> gen_opt s2 = gen_opt s \<and>
            disc_vars s' = disc_vars s2 \<and> disc_opt s' = disc_opt s2))"
proof (intro conjI impI)
  assume "discriminator_substep lib xs B s = Inr r"
  then show "gen_vars (fst r) = gen_vars s" and "gen_opt (fst r) = gen_opt s"
    by (auto simp: discriminator_substep_eq split: if_splits)
next
  show "disc_vars (fst (generator_substep lib noise s)) = disc_vars s"
    and "disc_opt (fst (generator_substep lib noise s)) = disc_opt s"
    by (simp_all add: generator_substep_eq)
next
  assume step: "train_step lib xs B s = Inr (s', dl, gl)"
  then obtain s2 noise where
    d: "discriminator_substep lib xs B s = Inr (s2, noise, dl)" and
    g: "generator_substep lib noise s2 = (s', gl)"
    by (auto simp: train_step_def split: sum.splits prod.splits)
  from d have n: "noise = step_noise s B" and "gen_vars s2 = gen_vars s" "gen_opt s2 = gen_opt s"
    by (auto simp: discriminator_substep_eq split: if_splits)
  moreover from g have "disc_vars s' = disc_vars s2" "disc_opt s' = disc_opt s2"
    by (auto simp: generator_substep_eq)
  ultimately show "\<exists>s2. discriminator_substep lib xs B s = Inr (s2, step_noise s B, dl) \<and>
            generator_substep lib (step_noise s B) s2 = (s', gl) \<and>
            gen_vars s2 = gen_vars s \<and> gen_opt s2 = gen_opt s \<and>
            disc_vars s' = disc_vars s2 \<and> disc_opt s' = disc_opt s2"
    using d g by auto
qed

theorem updates_are_separate_witness:
  "discriminator_substep sample_backend [sample_image] 1 sample_session
     = Inr (projr (discriminator_substep sample_backend [sample_image] 1 sample_session)) \<and>
   gen_vars (fst (projr (discriminator_substep sample_backend [sample_image] 1 sample_session)))
     = gen_vars sample_session \<and>
   gen_opt (fst (projr (discriminator_substep sample_backend [sample_image] 1 sample_session)))
     = gen_opt sample_session \<and>
   disc_opt (fst (projr (discriminator_substep sample_backend [sample_image] 1 sample_session)))
     = Suc (disc_opt sample_session)"
proof -
  have run: "discriminator_substep sample_backend [sample_image] 1 sample_session
     = Inr (projr (discriminator_substep sample_backend [sample_image] 1 sample_session))"
    using step_ok_sample by (simp add: discriminator_substep_eq step_ok_def)
  have upd: "disc_opt (fst (projr (discriminator_substep sample_backend [sample_image] 1 sample_session)))
     = Suc (disc_opt sample_session)"
    using step_ok_sample
    by (simp add: discriminator_substep_eq step_ok_def sample_backend_def)
  from updates_are_separate [THEN conjunct1, THEN mp, OF run] run upd
  show ?thesis by blast
qed

text \<open>
  C3. Whenever the step returns, the returned discriminator loss is computed from the
  discriminator's scores of the real batch and of the synthetic batch, both taken with the
  variables the discriminator had on entry, the synthetic batch being what the generator
  produces with the variables it had on entry. The updates follow the scores: the
  discriminator's new variables are Adam's result, at the entry variables, from the
  gradient of exactly that loss; the generator's new variables are Adam's result from a
  loss that already uses the updated discriminator. No update can reach the scores: a
  backend with any other gradient and Adam functions returns the same discriminator loss.
\<close>

theorem scores_before_updates:
  assumes "train_step lib xs B s = Inr (s', dl, gl)"
  shows "let noise = fst (draw_normal (tf_rng s) (nat B) 100);
             fake_images = build_generator True (gen_vars s) (gen_stats s) noise;
             real_output = build_discriminator (disc_vars s) xs;
             fake_output = build_discriminator (disc_vars s) fake_images
         in dl = tensor_add (binary_crossentropy lib (ones_like real_output) real_output)
                            (binary_crossentropy lib (zeros_like fake_output) fake_output) \<and>
            disc_vars s' = snd (adam_disc lib (disc_opt s)
              (grad_disc lib
                 (\<lambda>dw. tensor_add
                    (binary_crossentropy lib (ones_like (build_discriminator dw xs))
                       (build_discriminator dw xs))
                    (binary_crossentropy lib (zeros_like (build_discriminator dw fake_images))
                       (build_discriminator dw fake_images)))
                 (disc_vars s))
              (disc_vars s)) \<and>
            gen_vars s' = snd (adam_gen lib (gen_opt s)
              (grad_gen lib
                 (\<lambda>gw. binary_crossentropy lib
                    (ones_like (build_discriminator (disc_vars s')
                       (build_generator True gw (gen_stats s) noise)))
                    (build_discriminator (disc_vars s')
                       (build_generator True gw (gen_stats s) noise)))
                 (gen_vars s))
              (gen_vars s)) \<and>
            (\<forall>lib'. xent lib' = xent lib \<longrightarrow>
               (\<exists>t' gl'. train_step lib' xs B s = Inr (t', dl, gl')))"
proof -
  have dl: "dl = disc_tape lib xs (step_fake s B) (disc_vars s)"
    using assms by (rule train_step_InrD(2))
  have dv: "disc_vars s' = snd (adam_disc lib (disc_opt s)
           (grad_disc lib (disc_tape lib xs (step_fake s B)) (disc_vars s)) (disc_vars s))"
    using assms by (rule train_step_updates(1))
  have gv: "gen_vars s' = snd (adam_gen lib (gen_opt s)
           (grad_gen lib (gen_tape lib (disc_vars s')
              (generator_stats (gen_vars s) (gen_stats s) (step_noise s B)) (step_noise s B))
              (gen_vars s)) (gen_vars s))"
    using assms by (rule train_step_updates(2))
  have other: "\<forall>lib'. xent lib' = xent lib \<longrightarrow>
               (\<exists>t' gl'. train_step lib' xs B s = Inr (t', dl, gl'))"
    using train_step_disc_loss_backend [OF assms] by blast
  show ?thesis
    unfolding Let_def
    using dl [unfolded disc_tape_fun]
      dv [unfolded disc_tape_fun]
      gv [unfolded gen_tape_fun [where ?st0.0 = "gen_stats s"]]
      other
    by (simp add: step_fake_def step_noise_def)
qed

theorem scores_before_updates_witness:
  "train_step sample_backend [sample_image] 1 sample_session
     = Inr (projr (train_step sample_backend [sample_image] 1 sample_session)) \<and>
   fst (snd (projr (train_step sample_backend [sample_image] 1 sample_session)))
     = [xent sample_backend 1 (1 / 2) + xent sample_backend 0 (1 / 2)]"
proof -
  obtain s' dl gl where r: "train_step sample_backend [sample_image] 1 sample_session = Inr (s', dl, gl)"
    using train_step_succeeds [OF step_ok_sample, of sample_backend sample_session] by auto
  let ?fake = "build_generator True (gen_vars sample_session) (gen_stats sample_session)
                 (fst (draw_normal (tf_rng sample_session) (nat 1) 100))"
  let ?ro = "build_discriminator (disc_vars sample_session) [sample_image]"
  let ?fo = "build_discriminator (disc_vars sample_session) ?fake"
  have "dl = tensor_add (binary_crossentropy sample_backend (ones_like ?ro) ?ro)
                        (binary_crossentropy sample_backend (zeros_like ?fo) ?fo)"
    using scores_before_updates [OF r] unfolding Let_def by blast
  moreover have "?ro = [[1 / 2]]" and "?fo = [[1 / 2]]"
    by (simp_all add: sample_session_def build_discriminator_sample)
  ultimately have "dl = [xent sample_backend 1 (1 / 2) + xent sample_backend 0 (1 / 2)]"
    by (simp add: tensor_add_def binary_crossentropy_def ones_like_def zeros_like_def)
  with r show ?thesis by simp
qed

text \<open>
  C4 (as amended). The specification says the step returns two scalars. The code returns
  two rank-1 tensors of per-sample losses: Keras's \<^verbatim>\<open>binary_crossentropy\<close> function
  averages over the last axis only, and nothing in \<^verbatim>\<open>train_step\<close> reduces over the batch
  (the driver takes \<^verbatim>\<open>np.mean\<close> of each when it prints). What holds: whenever the step
  returns, the generator loss has \<open>batch_size\<close> entries and the discriminator loss has as
  many entries as there are real images (\<open>batch_size\<close> of them when a single real image
  is broadcast); with a real batch of \<open>batch_size\<close> images both have \<open>batch_size\<close> entries.
\<close>

theorem losses_are_per_sample:
  assumes "train_step lib xs B s = Inr (s', dl, gl)"
  shows "length gl = nat B \<and> length dl = (if length xs = 1 then nat B else length xs)"
  using train_step_InrD(2,3) [OF assms]
  by (simp add: length_disc_tape)

theorem losses_are_per_sample_witness:
  "train_step sample_backend [sample_image, sample_image] 2 sample_session
     = Inr (projr (train_step sample_backend [sample_image, sample_image] 2 sample_session)) \<and>
   length (snd (snd (projr (train_step sample_backend [sample_image, sample_image] 2 sample_session))))
     = nat 2 \<and>
   length (fst (snd (projr (train_step sample_backend [sample_image, sample_image] 2 sample_session))))
     = length [sample_image, sample_image]"
proof -
  obtain s' dl gl where
    r: "train_step sample_backend [sample_image, sample_image] 2 sample_session = Inr (s', dl, gl)"
    using train_step_succeeds [OF step_ok_sample2, of sample_backend sample_session] by auto
  from losses_are_per_sample [OF r] have "length gl = nat 2"
    and "length dl = length [sample_image, sample_image]"
    by simp_all
  with r show ?thesis by simp
qed

text \<open>The claim as stated fails on two sample images with batch size 2: each returned loss
  holds two values.\<close>

theorem scalar_losses_counterexample:
  "loss_lengths (train_step sample_backend [sample_image, sample_image] 2 sample_session)
     = Inr (2, 2)"
  using train_step_loss_lengths [OF step_ok_sample2, of sample_backend sample_session]
  by simp

text \<open>
  C5. Whenever the step returns, the discriminator loss is the sum of two binary
  cross-entropy terms: the scores of the real batch against all-ones plus the scores of
  the synthetic batch against all-zeros. With a real batch of \<open>batch_size\<close> images, entry
  \<open>i\<close> of the loss is the cross-entropy of real sample \<open>i\<close>'s score against 1 plus that
  of synthetic sample \<open>i\<close>'s score against 0 (a sum, not an average).
\<close>

theorem discriminator_loss_is_sum:
  assumes "train_step lib xs B s = Inr (s', dl, gl)"
  shows "let real_output = build_discriminator (disc_vars s) xs;
             fake_output = build_discriminator (disc_vars s) (step_fake s B)
         in dl = tensor_add (binary_crossentropy lib (ones_like real_output) real_output)
                            (binary_crossentropy lib (zeros_like fake_output) fake_output) \<and>
            (length xs = nat B \<longrightarrow>
               (\<forall>i < nat B. dl ! i = xent lib 1 (real_output ! i ! 0)
                                        + xent lib 0 (fake_output ! i ! 0)))"
proof -
  have dl: "dl = tensor_add
      (binary_crossentropy lib (ones_like (build_discriminator (disc_vars s) xs))
         (build_discriminator (disc_vars s) xs))
      (binary_crossentropy lib (zeros_like (build_discriminator (disc_vars s) (step_fake s B)))
         (build_discriminator (disc_vars s) (step_fake s B)))"
    using train_step_InrD(2) [OF assms] by (simp add: disc_tape_def Let_def)
  have "dl ! i = xent lib 1 (build_discriminator (disc_vars s) xs ! i ! 0)
             + xent lib 0 (build_discriminator (disc_vars s) (step_fake s B) ! i ! 0)"
    if "length xs = nat B" and "i < nat B" for i
    using that
    by (simp add: dl tensor_add_nth binary_crossentropy_ones_nth binary_crossentropy_zeros_nth)
  with dl show ?thesis
    by (simp add: Let_def)
qed

theorem discriminator_loss_is_sum_witness:
  "train_step sample_backend [sample_image] 1 sample_session
     = Inr (projr (train_step sample_backend [sample_image] 1 sample_session)) \<and>
   length [sample_image] = nat 1 \<and> 0 < nat 1 \<and>
   fst (snd (projr (train_step sample_backend [sample_image] 1 sample_session))) ! 0
     = xent sample_backend 1 (build_discriminator (disc_vars sample_session) [sample_image] ! 0 ! 0)
       + xent sample_backend 0
           (build_discriminator (disc_vars sample_session) (step_fake sample_session 1) ! 0 ! 0)"
proof -
  obtain s' dl gl where r: "train_step sample_backend [sample_image] 1 sample_session = Inr (s', dl, gl)"
    using train_step_succeeds [OF step_ok_sample, of sample_backend sample_session] by auto
  have len: "length [sample_image] = nat 1" and pos: "0 < nat 1"
    by simp_all
  have "dl ! 0
     = xent sample_backend 1 (build_discriminator (disc_vars sample_session) [sample_image] ! 0 ! 0)
       + xent sample_backend 0
           (build_discriminator (disc_vars sample_session) (step_fake sample_session 1) ! 0 ! 0)"
    using discriminator_loss_is_sum [OF r] len pos unfolding Let_def by blast
  with r len pos show ?thesis by simp
qed

subsection \<open>The discriminator\<close>




subsection \<open>Displaying samples\<close>

text \<open>
  C8. With \<^verbatim>\<open>num_images = 16\<close> the latent batch has 16 rows of 100 entries, the generator
  (in inference mode) returns exactly 16 samples, each 28 x 28 x 1, and the call shows one
  figure whose 16 panels, in the order of the 4 x 4 grid, are the first channels of the
  16 rescaled samples.
\<close>

theorem generate_and_display_16:
  "let noise = fst (draw_normal (np_rng s) 16 100);
       generated = build_generator False (gen_vars s) (gen_stats s) noise
   in length noise = 16 \<and> list_all (\<lambda>z. length z = 100) noise \<and>
      length generated = 16 \<and> list_all image_ok generated \<and>
      generate_and_display_images s 16 =
        Inr (s\<lparr>np_rng := snd (draw_normal (np_rng s) 16 100),
               figures := figures s @
                 [map (\<lambda>k. ((k div 4, k mod 4), channel0 (rescale generated ! k))) [0..<16]]\<rparr>)"
  by (simp add: Let_def draw_normal_rows build_generator_shape generate_and_display_images_def
      random_normal_def predict_16 display_grid split_beta del: upt_Suc)

theorem generate_and_display_16_witness:
  "let noise = fst (draw_normal (np_rng sample_session) 16 100);
       generated = build_generator False (gen_vars sample_session) (gen_stats sample_session) noise
   in length noise = 16 \<and> list_all (\<lambda>z. length z = 100) noise \<and>
      length generated = 16 \<and> list_all image_ok generated \<and>
      generate_and_display_images sample_session 16 =
        Inr (sample_session\<lparr>np_rng := snd (draw_normal (np_rng sample_session) 16 100),
               figures := figures sample_session @
                 [map (\<lambda>k. ((k div 4, k mod 4), channel0 (rescale generated ! k))) [0..<16]]\<rparr>)"
  using generate_and_display_16 [of sample_session] .

text \<open>
  C10 (as amended). The grid is 4 x 4 whatever \<^verbatim>\<open>num_images\<close> is, and the call fails for
  every \<^verbatim>\<open>num_images\<close> below 16, but not always in the display loop. With 16 or more the
  figure shows exactly the first 16 samples. For \<open>1 \<le> num_images < 16\<close> the display loop
  indexes the batch out of bounds (IndexError at \<^verbatim>\<open>cnt = num_images\<close>). With
  \<^verbatim>\<open>num_images = 0\<close> the call fails earlier, in \<^verbatim>\<open>generator.predict\<close>, and with a negative
  \<^verbatim>\<open>num_images\<close> earlier still, in \<^verbatim>\<open>np.random.randn\<close>.
\<close>

theorem display_grid_fixed:
  "(16 \<le> num_images \<longrightarrow>
      generate_and_display_images s num_images =
        Inr (s\<lparr>np_rng := snd (draw_normal (np_rng s) (nat num_images) 100),
               figures := figures s @
                 [map (\<lambda>k. ((k div 4, k mod 4),
                        channel0 (rescale (build_generator False (gen_vars s) (gen_stats s)
                          (fst (draw_normal (np_rng s) (nat num_images) 100))) ! k))) [0..<16]]\<rparr>)) \<and>
   (num_images < 16 \<longrightarrow> isl (generate_and_display_images s num_images)) \<and>
   (1 \<le> num_images \<and> num_images < 16 \<longrightarrow>
      generate_and_display_images s num_images = Inl IndexError \<and>
      display_loop (rescale (build_generator False (gen_vars s) (gen_stats s)
          (fst (draw_normal (np_rng s) (nat num_images) 100)))) grid_axes 0 = Inl IndexError) \<and>
   (num_images = 0 \<longrightarrow> generate_and_display_images s num_images = Inl PredictError) \<and>
   (num_images < 0 \<longrightarrow> generate_and_display_images s num_images = Inl ValueError)"
proof -
  let ?noise = "fst (draw_normal (np_rng s) (nat num_images) 100)"
  let ?g = "rescale (build_generator False (gen_vars s) (gen_stats s) ?noise)"
  have pred: "predict (gen_vars s) (gen_stats s) ?noise
      = Inr (build_generator False (gen_vars s) (gen_stats s) ?noise)" if "1 \<le> num_images"
    using that by (intro predict_eq draw_normal_nonempty) simp
  have short: "generate_and_display_images s num_images = Inl IndexError \<and>
      display_loop ?g grid_axes 0 = Inl IndexError"
    if small: "1 \<le> num_images \<and> num_images < 16"
  proof -
    from small have "nat num_images < 16" by linarith
    then have loop: "display_loop ?g grid_axes 0 = Inl IndexError"
      by (simp add: display_grid_short)
    with small pred show ?thesis
      by (simp add: Let_def generate_and_display_images_def random_normal_def split_beta)
  qed
  have empty: "generate_and_display_images s num_images = Inl PredictError"
    if "num_images = 0"
    using that
    by (simp add: generate_and_display_images_def random_normal_def predict_def draw_normal_def)
  have negative: "generate_and_display_images s num_images = Inl ValueError"
    if "num_images < 0"
    using that by (simp add: generate_and_display_images_def random_normal_def)
  have fails: "isl (generate_and_display_images s num_images)" if "num_images < 16"
  proof (cases "num_images < 0")
    case True
    then show ?thesis by (simp add: negative)
  next
    case False
    show ?thesis
    proof (cases "num_images = 0")
      case True
      then show ?thesis using empty by simp
    next
      case False
      with \<open>\<not> num_images < 0\<close> that have "1 \<le> num_images \<and> num_images < 16"
        by linarith
      then show ?thesis by (simp add: short)
    qed
  qed
  have full: "generate_and_display_images s num_images =
        Inr (s\<lparr>np_rng := snd (draw_normal (np_rng s) (nat num_images) 100),
               figures := figures s @
                 [map (\<lambda>k. ((k div 4, k mod 4), channel0 (?g ! k))) [0..<16]]\<rparr>)"
    if big: "16 \<le> num_images"
  proof -
    from big have "16 \<le> nat num_images" by simp
    moreover from big have "1 \<le> num_images" by simp
    ultimately show ?thesis
      using big pred
      by (simp add: Let_def generate_and_display_images_def random_normal_def display_grid
          split_beta del: upt_Suc)
  qed
  from full fails short empty negative show ?thesis
    by blast
qed

theorem display_grid_fixed_witness:
  "generate_and_display_images sample_session 20 =
     Inr (sample_session\<lparr>np_rng := snd (draw_normal (np_rng sample_session) (nat 20) 100),
            figures := figures sample_session @
              [map (\<lambda>k. ((k div 4, k mod 4),
                     channel0 (rescale (build_generator False (gen_vars sample_session)
                       (gen_stats sample_session)
                       (fst (draw_normal (np_rng sample_session) (nat 20) 100))) ! k))) [0..<16]]\<rparr>) \<and>
   isl (generate_and_display_images sample_session 3) \<and>
   generate_and_display_images sample_session 3 = Inl IndexError \<and>
   generate_and_display_images sample_session 15 = Inl IndexError \<and>
   generate_and_display_images sample_session 1 = Inl IndexError"
proof -
  have big: "(16::int) \<le> 20" and less: "(3::int) < 16"
    and three: "(1::int) \<le> 3 \<and> (3::int) < 16"
    and fifteen: "(1::int) \<le> 15 \<and> (15::int) < 16"
    and one: "(1::int) \<le> 1 \<and> (1::int) < 16"
    by simp_all
  note th = display_grid_fixed [where s = sample_session]
  note idx = th [THEN conjunct2, THEN conjunct2, THEN conjunct1, THEN mp, THEN conjunct1]
  show ?thesis
    by (intro conjI th [THEN conjunct1, THEN mp, OF big]
        th [THEN conjunct2, THEN conjunct1, THEN mp, OF less]
        idx [OF three] idx [OF fifteen] idx [OF one])
qed

text \<open>The claim as stated fails at \<^verbatim>\<open>num_images = -1\<close> and at \<^verbatim>\<open>num_images = 0\<close>: the call
  fails, but before the display loop is reached, so no index is out of bounds.\<close>

theorem display_loop_not_reached_counterexample:
  "generate_and_display_images sample_session (- 1) = Inl ValueError \<and>
   generate_and_display_images sample_session (- 1) \<noteq> Inl IndexError \<and>
   generate_and_display_images sample_session 0 = Inl PredictError \<and>
   generate_and_display_images sample_session 0 \<noteq> Inl IndexError"
  by (simp add: generate_and_display_images_def random_normal_def predict_def draw_normal_def)

subsection \<open>The driver\<close>




end
